theory Spec2Isabelle
  imports Complex_Main "HOL-Library.Multiset"
begin

section \<open>The telemetry source: \<open>utils.get_nvidia_stats\<close>\<close>

text \<open>
  The exceptions the modelled code can raise. Every NVML query raises \<open>NVMLError\<close> when it
  fails; the other two come from Python itself (a division by zero, a list index out of
  range).
\<close>

datatype py_error = NVMLError | ZeroDivisionError | IndexError

text \<open>What the NVML binding returns: \<open>nvmlMemory_t\<close>, \<open>nvmlUtilization_t\<close> and one entry
  of a running-process list. All fields are unsigned integers.\<close>

record memory_info =
  total :: nat
  used :: nat

record utilization_rates =
  gpu :: nat
  memory :: nat

record process_info =
  proc_pid :: nat
  usedGpuMemory :: nat

text \<open>
  The answers of the NVML library and of the operating system during one tick. A query that
  raises \<open>NVMLError\<close> is \<open>None\<close>. \<open>get_process_name\<close> is the helper of \<open>utils.py\<close>: it
  catches every exception itself and always returns a string.
\<close>

record nvml =
  nvmlDeviceGetHandleByIndex :: "nat \<Rightarrow> nat option"
  nvmlDeviceGetName :: "nat \<Rightarrow> string option"
  nvmlDeviceGetMemoryInfo :: "nat \<Rightarrow> memory_info option"
  nvmlDeviceGetUtilizationRates :: "nat \<Rightarrow> utilization_rates option"
  nvmlDeviceGetTemperature :: "nat \<Rightarrow> nat option"
  nvmlDeviceGetPowerUsage :: "nat \<Rightarrow> nat option"
  nvmlDeviceGetEnforcedPowerLimit :: "nat \<Rightarrow> nat option"
  nvmlDeviceGetFanSpeed :: "nat \<Rightarrow> nat option"
  nvmlDeviceGetClockInfo :: "nat \<Rightarrow> nat option"
  nvmlDeviceGetComputeRunningProcesses :: "nat \<Rightarrow> process_info list option"
  nvmlDeviceGetGraphicsRunningProcesses :: "nat \<Rightarrow> process_info list option"
  get_process_name :: "nat \<Rightarrow> string"

text \<open>One entry of \<open>stat['processes']\<close> and the \<open>stat\<close> dictionary of one device. Python's
  true division yields a float; the model computes with real numbers.\<close>

record process =
  pid :: nat
  used_memory :: real
  ptype :: string
  pname :: string

record stat =
  gpu_index :: nat
  name :: string
  memory_total :: real
  memory_used :: real
  memory_utilization :: real
  utilization :: real
  memory_utilization_rate :: real
  temperature :: real
  power_draw :: real
  power_limit :: real
  fan_speed :: real
  clock_speed :: real
  processes :: "process list"

text \<open>The eight metric groups of \<open>get_nvidia_stats\<close>, one per \<open>try\<close> block (the process
  group has two). Every handler is \<open>except pynvml.NVMLError\<close>, which does not catch the
  \<open>ZeroDivisionError\<close> of \<open>mem_info.used / mem_info.total\<close>: the memory block leaves the
  function when the total is 0. The \<open>usedGpuMemory\<close> of a process entry is taken to be a
  number; an entry for which the binding reports no value is outside this model.\<close>

definition name_group :: "nvml \<Rightarrow> nat \<Rightarrow> string" where
  "name_group nv handle =
     (case nvmlDeviceGetName nv handle of Some n \<Rightarrow> n | None \<Rightarrow> ''Unknown'')"

definition memory_group :: "nvml \<Rightarrow> nat \<Rightarrow> py_error + (real \<times> real \<times> real)" where
  "memory_group nv handle =
     (case nvmlDeviceGetMemoryInfo nv handle of
        Some mem_info \<Rightarrow>
          if total mem_info = 0 then Inl ZeroDivisionError
          else Inr (real (total mem_info) / 1024 ^ 2,
                    real (used mem_info) / 1024 ^ 2,
                    (real (used mem_info) / real (total mem_info)) * 100)
      | None \<Rightarrow> Inr (0, 0, 0))"

definition utilization_group :: "nvml \<Rightarrow> nat \<Rightarrow> real \<times> real" where
  "utilization_group nv handle =
     (case nvmlDeviceGetUtilizationRates nv handle of
        Some util \<Rightarrow> (real (gpu util), real (memory util))
      | None \<Rightarrow> (0, 0))"

definition temperature_group :: "nvml \<Rightarrow> nat \<Rightarrow> real" where
  "temperature_group nv handle =
     (case nvmlDeviceGetTemperature nv handle of Some t \<Rightarrow> real t | None \<Rightarrow> 0)"

definition power_group :: "nvml \<Rightarrow> nat \<Rightarrow> real \<times> real" where
  "power_group nv handle =
     (case nvmlDeviceGetPowerUsage nv handle of
        None \<Rightarrow> (0, 0)
      | Some pu \<Rightarrow>
          (case nvmlDeviceGetEnforcedPowerLimit nv handle of
             None \<Rightarrow> (0, 0)
           | Some pl \<Rightarrow> (real pu / 1000, real pl / 1000)))"

definition fan_group :: "nvml \<Rightarrow> nat \<Rightarrow> real" where
  "fan_group nv handle =
     (case nvmlDeviceGetFanSpeed nv handle of Some f \<Rightarrow> real f | None \<Rightarrow> 0)"

definition clock_group :: "nvml \<Rightarrow> nat \<Rightarrow> real" where
  "clock_group nv handle =
     (case nvmlDeviceGetClockInfo nv handle of Some c \<Rightarrow> real c | None \<Rightarrow> 0)"

definition proc_entry :: "string \<Rightarrow> process_info \<Rightarrow> process" where
  "proc_entry ty proc =
     \<lparr>pid = proc_pid proc, used_memory = real (usedGpuMemory proc) / 1024 ^ 2,
      ptype = ty, pname = []\<rparr>"

definition process_group :: "nvml \<Rightarrow> nat \<Rightarrow> process list" where
  "process_group nv handle =
     (let compute = (case nvmlDeviceGetComputeRunningProcesses nv handle of
                       Some compute_procs \<Rightarrow> map (proc_entry ''C'') compute_procs
                     | None \<Rightarrow> []);
          graphics = (case nvmlDeviceGetGraphicsRunningProcesses nv handle of
                        Some graphics_procs \<Rightarrow> map (proc_entry ''G'') graphics_procs
                      | None \<Rightarrow> [])
      in map (\<lambda>proc. proc\<lparr>pname := get_process_name nv (pid proc)\<rparr>) (compute @ graphics))"

text \<open>The body of the device loop. \<open>nvmlDeviceGetHandleByIndex\<close> is called outside every
  \<open>try\<close>, so its failure leaves the function.\<close>

definition device_stat :: "nvml \<Rightarrow> nat \<Rightarrow> py_error + stat" where
  "device_stat nv i =
     (case nvmlDeviceGetHandleByIndex nv i of
        None \<Rightarrow> Inl NVMLError
      | Some handle \<Rightarrow>
          (case memory_group nv handle of
             Inl e \<Rightarrow> Inl e
           | Inr (mt, mu, mutil) \<Rightarrow>
               Inr \<lparr>gpu_index = i,
                    name = name_group nv handle,
                    memory_total = mt,
                    memory_used = mu,
                    memory_utilization = mutil,
                    utilization = fst (utilization_group nv handle),
                    memory_utilization_rate = snd (utilization_group nv handle),
                    temperature = temperature_group nv handle,
                    power_draw = fst (power_group nv handle),
                    power_limit = snd (power_group nv handle),
                    fan_speed = fan_group nv handle,
                    clock_speed = clock_group nv handle,
                    processes = process_group nv handle\<rparr>))"

fun stats_loop :: "nvml \<Rightarrow> nat list \<Rightarrow> py_error + stat list" where
  "stats_loop nv [] = Inr []"
| "stats_loop nv (i # is) =
     (case device_stat nv i of
        Inl e \<Rightarrow> Inl e
      | Inr s \<Rightarrow> (case stats_loop nv is of Inl e \<Rightarrow> Inl e | Inr ss \<Rightarrow> Inr (s # ss)))"

definition get_nvidia_stats :: "nvml \<Rightarrow> nat \<Rightarrow> py_error + stat list" where
  "get_nvidia_stats nv device_count = stats_loop nv [0..<device_count]"

section \<open>The application state: \<open>GPU_Monitor_App\<close>\<close>

text \<open>The four keys shared by \<open>self.thresholds\<close>, \<open>self.alert_states\<close> and the value
  deques of a buffer; \<open>stat_get\<close> is \<open>stat.get(key, 0)\<close> for such a key (the key is always
  present in a dictionary built by \<open>get_nvidia_stats\<close>).\<close>

datatype metric = Temperature | Utilization | Memory_utilization | Power_draw

fun stat_get :: "stat \<Rightarrow> metric \<Rightarrow> real" where
  "stat_get s Temperature = temperature s"
| "stat_get s Utilization = utilization s"
| "stat_get s Memory_utilization = memory_utilization s"
| "stat_get s Power_draw = power_draw s"

text \<open>\<open>collections.deque(maxlen=...)\<close>: \<open>append\<close> adds on the right and then drops the
  leftmost element when the length exceeds \<open>maxlen\<close>.\<close>

definition deque_append :: "nat \<Rightarrow> 'a list \<Rightarrow> 'a \<Rightarrow> 'a list" where
  "deque_append maxlen d x = (let d' = d @ [x] in if length d' > maxlen then tl d' else d')"

definition buffer_size :: nat where
  "buffer_size = 60"

record buffer =
  time :: "nat list"
  series :: "metric \<Rightarrow> real list"

definition empty_buffer :: buffer where
  "empty_buffer = \<lparr>time = [], series = (\<lambda>_. [])\<rparr>"

record app =
  thresholds :: "metric \<Rightarrow> real"
  alert_states :: "metric \<Rightarrow> bool"
  device_count :: nat
  data_buffers :: "buffer list"

text \<open>\<open>__init__\<close>: every alert flag is \<open>False\<close>, one empty buffer per device.\<close>

definition init_app :: "(metric \<Rightarrow> real) \<Rightarrow> nat \<Rightarrow> app" where
  "init_app th n =
     \<lparr>thresholds = th, alert_states = (\<lambda>_. False), device_count = n,
      data_buffers = replicate n empty_buffer\<rparr>"

subsection \<open>\<open>check_alerts\<close>\<close>

text \<open>An alert stands for the message string built by the source: the metric, the GPU index,
  the value and the threshold that the f-string formats.\<close>

datatype alert = Alert (alert_metric: metric) (alert_gpu: nat) (alert_value: real) (alert_threshold: real)

text \<open>One of the four \<open>if ... elif ...\<close> blocks: it reads the value under key \<open>m\<close> of the
  stat, the threshold and the flag under the same key.\<close>

definition check_metric ::
  "(metric \<Rightarrow> real) \<Rightarrow> stat \<Rightarrow> metric \<Rightarrow> alert list \<times> (metric \<Rightarrow> bool) \<Rightarrow> alert list \<times> (metric \<Rightarrow> bool)" where
  "check_metric th s m = (\<lambda>(alerts_triggered, st).
     if stat_get s m > th m \<and> \<not> st m
       then (alerts_triggered @ [Alert m (gpu_index s) (stat_get s m) (th m)], st(m := True))
     else if stat_get s m \<le> th m then (alerts_triggered, st(m := False))
     else (alerts_triggered, st))"

text \<open>The body of the loop over \<open>stats\<close>: the four blocks in source order. The alerts of
  \<open>alerts_triggered\<close> are printed and handed to the notification and sound sinks; the model
  returns them.\<close>

definition check_alerts_stat ::
  "(metric \<Rightarrow> real) \<Rightarrow> (metric \<Rightarrow> bool) \<Rightarrow> stat \<Rightarrow> alert list \<times> (metric \<Rightarrow> bool)" where
  "check_alerts_stat th st s =
     check_metric th s Power_draw
       (check_metric th s Memory_utilization
         (check_metric th s Utilization
           (check_metric th s Temperature ([], st))))"

fun check_alerts ::
  "(metric \<Rightarrow> real) \<Rightarrow> (metric \<Rightarrow> bool) \<Rightarrow> stat list \<Rightarrow> alert list \<times> (metric \<Rightarrow> bool)" where
  "check_alerts th st [] = ([], st)"
| "check_alerts th st (s # ss) =
     (let (a, st1) = check_alerts_stat th st s;
          (as, st2) = check_alerts th st1 ss
      in (a @ as, st2))"

subsection \<open>\<open>update_stats_table\<close> and \<open>update_process_tables\<close>\<close>

text \<open>The nine cells of one row of the statistics table, before formatting.\<close>

type_synonym stats_row =
  "nat \<times> string \<times> real \<times> (real \<times> real) \<times> real \<times> real \<times> (real \<times> real) \<times> real \<times> real"

definition update_stats_table :: "stat list \<Rightarrow> stats_row list" where
  "update_stats_table stats =
     map (\<lambda>s. (gpu_index s, name s, utilization s, (memory_used s, memory_total s),
               memory_utilization s, temperature s, (power_draw s, power_limit s),
               fan_speed s, clock_speed s)) stats"

text \<open>\<open>sorted(xs, key=..., reverse=True)\<close>: CPython reverses the list, sorts it with its
  stable sort and reverses the result.\<close>

definition sorted_reverse :: "('a \<Rightarrow> 'k::linorder) \<Rightarrow> 'a list \<Rightarrow> 'a list" where
  "sorted_reverse key xs = rev (sort_key key (rev xs))"

definition display_processes :: "process list \<Rightarrow> process list" where
  "display_processes procs = take 20 (sorted_reverse used_memory procs)"

text \<open>The rows written into one process table: pid, full type name, name cut to 50
  characters and memory; one placeholder row when there is no process.\<close>

datatype table_row = Process_row nat string string real | No_processes_row

definition proc_type_full :: "string \<Rightarrow> string" where
  "proc_type_full proc_type =
     (if proc_type = ''G'' then ''Graphics''
      else if proc_type = ''C'' then ''Compute'' else ''Unknown'')"

definition process_table_rows :: "process list \<Rightarrow> table_row list" where
  "process_table_rows procs =
     (let shown = display_processes procs
      in if shown \<noteq> []
         then map (\<lambda>proc. Process_row (pid proc) (proc_type_full (ptype proc))
                            (take 50 (pname proc)) (used_memory proc)) shown
         else [No_processes_row])"

text \<open>One table per device tab; \<open>self.process_tabs.count()\<close> is the device count. A stat
  beyond the last tab is skipped.\<close>

definition update_process_tables :: "nat \<Rightarrow> stat list \<Rightarrow> (nat \<times> table_row list) list" where
  "update_process_tables tab_count stats =
     map (\<lambda>(i, s). (i, process_table_rows (processes s)))
       (filter (\<lambda>(i, s). \<not> i \<ge> tab_count) (enumerate 0 stats))"

subsection \<open>\<open>update_dashboard_graphs\<close>\<close>

definition append_buffer :: "nat \<Rightarrow> stat \<Rightarrow> buffer \<Rightarrow> buffer" where
  "append_buffer current_time s b =
     \<lparr>time = deque_append buffer_size (time b) current_time,
      series = (\<lambda>m. deque_append buffer_size (series b m) (stat_get s m))\<rparr>"

text \<open>The loop over \<open>enumerate(stats)\<close>. The buffers are mutated in place, so the buffers
  written before an \<open>IndexError\<close> stay written: the result is the buffers and the error, if
  any.\<close>

fun graphs_loop ::
  "nat \<Rightarrow> nat \<Rightarrow> stat list \<Rightarrow> buffer list \<Rightarrow> buffer list \<times> py_error option" where
  "graphs_loop current_time i [] bs = (bs, None)"
| "graphs_loop current_time i (s # ss) bs =
     (if i < length bs
      then graphs_loop current_time (Suc i) ss (bs[i := append_buffer current_time s (bs ! i)])
      else (bs, Some IndexError))"

definition update_dashboard_graphs ::
  "stat list \<Rightarrow> buffer list \<Rightarrow> buffer list \<times> py_error option" where
  "update_dashboard_graphs stats bs =
     (case bs of
        [] \<Rightarrow> (bs, Some IndexError)
      | b # _ \<Rightarrow> graphs_loop (length (time b)) 0 stats bs)"

subsection \<open>\<open>update_stats\<close>: one tick\<close>

text \<open>The calls a tick makes to its collaborators, in the order in which it makes them: the
  NVML library is queried for a number of devices, the statistics table is filled with rows,
  the process table of a tab is filled with rows, an alert is printed and handed to the
  notification and sound sinks, the four curves of a device are redrawn from its buffer.\<close>

datatype effect =
  Nvml_queried nat
  | Stats_table_set "stats_row list"
  | Process_table_set nat "table_row list"
  | Alert_sent alert
  | Curves_set nat buffer

text \<open>The functions \<open>update_stats\<close> calls, and the function that issues each call.\<close>

datatype stage =
  Get_nvidia_stats | Update_stats_table | Update_process_tables | Check_alerts
  | Update_dashboard_graphs

fun issued_by :: "effect \<Rightarrow> stage" where
  "issued_by (Nvml_queried n) = Get_nvidia_stats"
| "issued_by (Stats_table_set rows) = Update_stats_table"
| "issued_by (Process_table_set i rows) = Update_process_tables"
| "issued_by (Alert_sent a) = Check_alerts"
| "issued_by (Curves_set i b) = Update_dashboard_graphs"

text \<open>What one tick produced: the calls it made, in order, the table contents, the alerts
  and the exception that \<open>except Exception\<close> caught and printed, if any. The trace of a tick
  names the function behind each call.\<close>

record tick_output =
  journal :: "effect list"
  stats_table :: "stats_row list"
  process_tables :: "(nat \<times> table_row list) list"
  alerts :: "alert list"
  caught :: "py_error option"

definition empty_output :: tick_output where
  "empty_output =
     \<lparr>journal = [], stats_table = [], process_tables = [], alerts = [], caught = None\<rparr>"

definition trace :: "tick_output \<Rightarrow> stage list" where
  "trace out = map issued_by (journal out)"

text \<open>Each function called by \<open>update_stats\<close>, as a step on the application state and the
  output of the tick so far: it changes the state as the function does and appends the calls
  the function makes. \<open>update_dashboard_graphs\<close> redraws the curves of every device whose
  buffer it reached, and is the only one of the four that can raise.\<close>

definition get_nvidia_stats_step ::
  "nvml \<Rightarrow> app \<times> tick_output \<Rightarrow> (py_error + stat list) \<times> app \<times> tick_output" where
  "get_nvidia_stats_step nv = (\<lambda>(a, out).
     (get_nvidia_stats nv (device_count a),
      a, out\<lparr>journal := journal out @ [Nvml_queried (device_count a)]\<rparr>))"

definition update_stats_table_step :: "stat list \<Rightarrow> app \<times> tick_output \<Rightarrow> app \<times> tick_output" where
  "update_stats_table_step stats = (\<lambda>(a, out).
     let rows = update_stats_table stats
     in (a, out\<lparr>stats_table := rows, journal := journal out @ [Stats_table_set rows]\<rparr>))"

definition update_process_tables_step ::
  "stat list \<Rightarrow> app \<times> tick_output \<Rightarrow> app \<times> tick_output" where
  "update_process_tables_step stats = (\<lambda>(a, out).
     let tables = update_process_tables (device_count a) stats
     in (a, out\<lparr>process_tables := tables,
               journal := journal out @ map (\<lambda>(i, rows). Process_table_set i rows) tables\<rparr>))"

definition check_alerts_step :: "stat list \<Rightarrow> app \<times> tick_output \<Rightarrow> app \<times> tick_output" where
  "check_alerts_step stats = (\<lambda>(a, out).
     let (al, st) = check_alerts (thresholds a) (alert_states a) stats
     in (a\<lparr>alert_states := st\<rparr>,
         out\<lparr>alerts := al, journal := journal out @ map Alert_sent al\<rparr>))"

definition update_dashboard_graphs_step ::
  "stat list \<Rightarrow> app \<times> tick_output \<Rightarrow> app \<times> tick_output" where
  "update_dashboard_graphs_step stats = (\<lambda>(a, out).
     let (bs, err) = update_dashboard_graphs stats (data_buffers a)
     in (a\<lparr>data_buffers := bs\<rparr>,
         out\<lparr>caught := err,
             journal := journal out @
               map (\<lambda>i. Curves_set i (bs ! i)) [0..<min (length stats) (length bs)]\<rparr>))"

text \<open>\<open>update_stats\<close>: the sample, then the four functions in the order of the source. An
  exception from \<open>get_nvidia_stats\<close> ends the tick before any of them.\<close>

definition update_stats :: "nvml \<Rightarrow> app \<Rightarrow> tick_output \<times> app" where
  "update_stats nv a =
     (case get_nvidia_stats_step nv (a, empty_output) of
        (Inl e, a0, out) \<Rightarrow> (out\<lparr>caught := Some e\<rparr>, a0)
      | (Inr stats, w0) \<Rightarrow>
          (let w1 = update_stats_table_step stats w0;
               w2 = update_process_tables_step stats w1;
               w3 = check_alerts_step stats w2;
               (a4, out4) = update_dashboard_graphs_step stats w3
           in (out4, a4)))"

text \<open>The timer: one tick after the other, each with the answers the library gives during
  that tick. An exception ends its tick only.\<close>

fun run_ticks :: "nvml list \<Rightarrow> app \<Rightarrow> tick_output list \<times> app" where
  "run_ticks [] a = ([], a)"
| "run_ticks (nv # nvs) a =
     (let (out, a1) = update_stats nv a;
          (outs, a2) = run_ticks nvs a1
      in (out # outs, a2))"

section \<open>Harnesses and example inputs\<close>

text \<open>\<open>self.alert_states\<close> and \<open>self.data_buffers\<close> live as long as the application, so a
  sequence of calls threads them through. These functions run \<open>check_alerts\<close>, respectively
  \<open>update_dashboard_graphs\<close>, once per tick on the stats of that tick.\<close>

fun check_alerts_ticks ::
  "(metric \<Rightarrow> real) \<Rightarrow> (metric \<Rightarrow> bool) \<Rightarrow> stat list list \<Rightarrow> alert list list \<times> (metric \<Rightarrow> bool)" where
  "check_alerts_ticks th st [] = ([], st)"
| "check_alerts_ticks th st (stats # rest) =
     (let (a, st1) = check_alerts th st stats;
          (as, st2) = check_alerts_ticks th st1 rest
      in (a # as, st2))"

fun graphs_ticks :: "stat list list \<Rightarrow> buffer list \<Rightarrow> buffer list" where
  "graphs_ticks [] bs = bs"
| "graphs_ticks (stats # rest) bs = graphs_ticks rest (fst (update_dashboard_graphs stats bs))"

text \<open>The defaults of \<open>parse_arguments\<close>, as \<open>main\<close> puts them into the thresholds
  dictionary.\<close>

fun default_thresholds :: "metric \<Rightarrow> real" where
  "default_thresholds Temperature = 80"
| "default_thresholds Utilization = 90"
| "default_thresholds Memory_utilization = 90"
| "default_thresholds Power_draw = 250"

text \<open>A library in which every query succeeds with fixed, unremarkable values, except the
  temperature and memory queries, which are given.\<close>

definition example_nvml :: "(nat \<Rightarrow> nat option) \<Rightarrow> (nat \<Rightarrow> memory_info option) \<Rightarrow> nvml" where
  "example_nvml temp mem =
     \<lparr>nvmlDeviceGetHandleByIndex = Some,
      nvmlDeviceGetName = (\<lambda>h. Some ''GPU''),
      nvmlDeviceGetMemoryInfo = mem,
      nvmlDeviceGetUtilizationRates = (\<lambda>h. Some \<lparr>gpu = 10, memory = 5\<rparr>),
      nvmlDeviceGetTemperature = temp,
      nvmlDeviceGetPowerUsage = (\<lambda>h. Some 100000),
      nvmlDeviceGetEnforcedPowerLimit = (\<lambda>h. Some 250000),
      nvmlDeviceGetFanSpeed = (\<lambda>h. Some 30),
      nvmlDeviceGetClockInfo = (\<lambda>h. Some 1500),
      nvmlDeviceGetComputeRunningProcesses = (\<lambda>h. Some []),
      nvmlDeviceGetGraphicsRunningProcesses = (\<lambda>h. Some []),
      get_process_name = (\<lambda>p. ''Unknown'')\<rparr>"

definition example_memory :: "nat \<Rightarrow> memory_info option" where
  "example_memory h = Some \<lparr>total = 8589934592, used = 2147483648\<rparr>"

definition example_stat :: "nat \<Rightarrow> real \<Rightarrow> stat" where
  "example_stat i temp =
     \<lparr>gpu_index = i, name = ''GPU'', memory_total = 8192, memory_used = 2048,
      memory_utilization = 25, utilization = 10, memory_utilization_rate = 5,
      temperature = temp, power_draw = 100, power_limit = 250, fan_speed = 30,
      clock_speed = 1500, processes = []\<rparr>"

definition example_process :: "nat \<Rightarrow> real \<Rightarrow> process" where
  "example_process p mem = \<lparr>pid = p, used_memory = mem, ptype = ''C'', pname = ''python''\<rparr>"

text \<open>The query behind each alert metric fails: the power group has two queries, and either
  failure sends the block to its handler.\<close>

fun metric_query_fails :: "nvml \<Rightarrow> nat \<Rightarrow> metric \<Rightarrow> bool" where
  "metric_query_fails nv handle Temperature = (nvmlDeviceGetTemperature nv handle = None)"
| "metric_query_fails nv handle Utilization = (nvmlDeviceGetUtilizationRates nv handle = None)"
| "metric_query_fails nv handle Memory_utilization = (nvmlDeviceGetMemoryInfo nv handle = None)"
| "metric_query_fails nv handle Power_draw =
     (nvmlDeviceGetPowerUsage nv handle = None \<or> nvmlDeviceGetEnforcedPowerLimit nv handle = None)"

text \<open>The ten queries of \<open>get_nvidia_stats\<close> (the power block and the process list take two
  each). \<open>fail_query q h nv\<close> is the library \<open>nv\<close> in which query \<open>q\<close> raises \<open>NVMLError\<close>
  for handle \<open>h\<close>; \<open>sentinel q s\<close> is the sample \<open>s\<close> with the fields that the block of \<open>q\<close>
  writes set to what its handler writes.\<close>

datatype query =
  Name_query | Memory_query | Utilization_query | Temperature_query | Power_usage_query
  | Power_limit_query | Fan_query | Clock_query | Compute_processes_query
  | Graphics_processes_query

fun fail_query :: "query \<Rightarrow> nat \<Rightarrow> nvml \<Rightarrow> nvml" where
  "fail_query Name_query h nv = nv\<lparr>nvmlDeviceGetName := (nvmlDeviceGetName nv)(h := None)\<rparr>"
| "fail_query Memory_query h nv =
     nv\<lparr>nvmlDeviceGetMemoryInfo := (nvmlDeviceGetMemoryInfo nv)(h := None)\<rparr>"
| "fail_query Utilization_query h nv =
     nv\<lparr>nvmlDeviceGetUtilizationRates := (nvmlDeviceGetUtilizationRates nv)(h := None)\<rparr>"
| "fail_query Temperature_query h nv =
     nv\<lparr>nvmlDeviceGetTemperature := (nvmlDeviceGetTemperature nv)(h := None)\<rparr>"
| "fail_query Power_usage_query h nv =
     nv\<lparr>nvmlDeviceGetPowerUsage := (nvmlDeviceGetPowerUsage nv)(h := None)\<rparr>"
| "fail_query Power_limit_query h nv =
     nv\<lparr>nvmlDeviceGetEnforcedPowerLimit := (nvmlDeviceGetEnforcedPowerLimit nv)(h := None)\<rparr>"
| "fail_query Fan_query h nv = nv\<lparr>nvmlDeviceGetFanSpeed := (nvmlDeviceGetFanSpeed nv)(h := None)\<rparr>"
| "fail_query Clock_query h nv =
     nv\<lparr>nvmlDeviceGetClockInfo := (nvmlDeviceGetClockInfo nv)(h := None)\<rparr>"
| "fail_query Compute_processes_query h nv =
     nv\<lparr>nvmlDeviceGetComputeRunningProcesses :=
          (nvmlDeviceGetComputeRunningProcesses nv)(h := None)\<rparr>"
| "fail_query Graphics_processes_query h nv =
     nv\<lparr>nvmlDeviceGetGraphicsRunningProcesses :=
          (nvmlDeviceGetGraphicsRunningProcesses nv)(h := None)\<rparr>"

fun sentinel :: "query \<Rightarrow> stat \<Rightarrow> stat" where
  "sentinel Name_query s = s\<lparr>name := ''Unknown''\<rparr>"
| "sentinel Memory_query s = s\<lparr>memory_total := 0, memory_used := 0, memory_utilization := 0\<rparr>"
| "sentinel Utilization_query s = s\<lparr>utilization := 0, memory_utilization_rate := 0\<rparr>"
| "sentinel Temperature_query s = s\<lparr>temperature := 0\<rparr>"
| "sentinel Power_usage_query s = s\<lparr>power_draw := 0, power_limit := 0\<rparr>"
| "sentinel Power_limit_query s = s\<lparr>power_draw := 0, power_limit := 0\<rparr>"
| "sentinel Fan_query s = s\<lparr>fan_speed := 0\<rparr>"
| "sentinel Clock_query s = s\<lparr>clock_speed := 0\<rparr>"
| "sentinel Compute_processes_query s =
     s\<lparr>processes := filter (\<lambda>p. ptype p \<noteq> ''C'') (processes s)\<rparr>"
| "sentinel Graphics_processes_query s =
     s\<lparr>processes := filter (\<lambda>p. ptype p \<noteq> ''G'') (processes s)\<rparr>"

text \<open>The timestamps in a \<open>time\<close> deque after a number of ticks: every tick appends the
  length the deque has at the start of the tick.\<close>

definition tick_time :: "nat list \<Rightarrow> nat list" where
  "tick_time d = deque_append buffer_size d (length d)"

text \<open>\<open>precedes x y zs\<close>: \<open>x\<close> occurs in \<open>zs\<close> and \<open>y\<close> occurs after its first occurrence.\<close>

definition precedes :: "'a \<Rightarrow> 'a \<Rightarrow> 'a list \<Rightarrow> bool" where
  "precedes x y zs = (y \<in> set (drop 1 (dropWhile (\<lambda>z. z \<noteq> x) zs)))"

section \<open>One tick\<close>

lemma update_dashboard_graphs_length:
  "length (fst (update_dashboard_graphs stats bs)) = length bs"
proof -
  have "length (fst (graphs_loop ct i ss cs)) = length cs" for ct i ss cs
    by (induction ss arbitrary: i cs) simp_all
  then show ?thesis
    by (cases bs) (simp_all add: update_dashboard_graphs_def)
qed

text \<open>What \<open>update_stats\<close> leaves behind, by the outcome of the sample.\<close>

lemma update_stats_raise:
  assumes "get_nvidia_stats nv (device_count a) = Inl e"
  shows "update_stats nv a =
           (empty_output\<lparr>journal := [Nvml_queried (device_count a)], caught := Some e\<rparr>, a)"
  using assms by (simp add: update_stats_def get_nvidia_stats_step_def empty_output_def)

lemma update_stats_alerts:
  assumes "get_nvidia_stats nv (device_count a) = Inr stats"
  shows "alerts (fst (update_stats nv a)) = fst (check_alerts (thresholds a) (alert_states a) stats)"
  using assms
  by (simp add: update_stats_def get_nvidia_stats_step_def update_stats_table_step_def
      update_process_tables_step_def check_alerts_step_def update_dashboard_graphs_step_def
      split_beta Let_def)

lemma update_stats_state:
  assumes "get_nvidia_stats nv (device_count a) = Inr stats"
  shows "snd (update_stats nv a) =
           a\<lparr>alert_states := snd (check_alerts (thresholds a) (alert_states a) stats),
             data_buffers := fst (update_dashboard_graphs stats (data_buffers a))\<rparr>"
  using assms
  by (simp add: update_stats_def get_nvidia_stats_step_def update_stats_table_step_def
      update_process_tables_step_def check_alerts_step_def update_dashboard_graphs_step_def
      split_beta Let_def)

lemma update_stats_journal:
  assumes "get_nvidia_stats nv (device_count a) = Inr stats"
  shows "journal (fst (update_stats nv a)) =
           [Nvml_queried (device_count a), Stats_table_set (update_stats_table stats)] @
           map (\<lambda>(i, rows). Process_table_set i rows)
             (update_process_tables (device_count a) stats) @
           map Alert_sent (fst (check_alerts (thresholds a) (alert_states a) stats)) @
           map (\<lambda>i. Curves_set i (fst (update_dashboard_graphs stats (data_buffers a)) ! i))
             [0..<min (length stats) (length (data_buffers a))]"
  using assms
  by (simp add: update_stats_def get_nvidia_stats_step_def update_stats_table_step_def
      update_process_tables_step_def check_alerts_step_def update_dashboard_graphs_step_def
      split_beta Let_def empty_output_def update_dashboard_graphs_length)

section \<open>The alert engine\<close>

subsection \<open>One \<open>if ... elif ...\<close> block changes one flag\<close>

lemma check_metric_other:
  "m' \<noteq> m \<Longrightarrow> snd (check_metric th s m' p) m = snd p m"
  by (cases p) (simp add: check_metric_def)

lemma check_metric_other_alerts:
  "m' \<noteq> m \<Longrightarrow>
   filter (\<lambda>a. alert_metric a = m) (fst (check_metric th s m' p)) =
     filter (\<lambda>a. alert_metric a = m) (fst p)"
  by (cases p) (simp add: check_metric_def)

lemma check_metric_same:
  "snd (check_metric th s m p) m = (stat_get s m > th m)"
  by (cases p) (auto simp add: check_metric_def)

lemma check_metric_same_alerts:
  "filter (\<lambda>a. alert_metric a = m) (fst (check_metric th s m p)) =
     filter (\<lambda>a. alert_metric a = m) (fst p) @
       (if stat_get s m > th m \<and> \<not> snd p m
        then [Alert m (gpu_index s) (stat_get s m) (th m)] else [])"
  by (cases p) (simp add: check_metric_def)

text \<open>After a sample the flag of a metric says whether the sample exceeded the threshold,
  and the sample raises an alert for the metric exactly when it exceeds the threshold while
  the flag is down.\<close>

lemma check_alerts_stat_flag:
  "snd (check_alerts_stat th st s) m = (stat_get s m > th m)"
  by (cases m) (simp_all add: check_alerts_stat_def check_metric_other check_metric_same)

lemma check_alerts_stat_alerts:
  "filter (\<lambda>a. alert_metric a = m) (fst (check_alerts_stat th st s)) =
     (if stat_get s m > th m \<and> \<not> st m
      then [Alert m (gpu_index s) (stat_get s m) (th m)] else [])"
  by (cases m)
     (simp_all add: check_alerts_stat_def check_metric_other check_metric_other_alerts
        check_metric_same_alerts)

lemma check_alerts_single:
  "check_alerts th st [s] = check_alerts_stat th st s"
  by (simp add: split_beta)

subsection \<open>The example library\<close>

lemma device_stat_example:
  "device_stat (example_nvml temp example_memory) i =
     Inr (example_stat i (case temp i of Some t \<Rightarrow> real t | None \<Rightarrow> 0))"
  by (simp add: device_stat_def example_nvml_def example_memory_def example_stat_def
      memory_group_def utilization_group_def temperature_group_def power_group_def
      fan_group_def clock_group_def process_group_def name_group_def)

lemma stats_example_2:
  "get_nvidia_stats (example_nvml temp example_memory) 2 =
     Inr [example_stat 0 (case temp 0 of Some t \<Rightarrow> real t | None \<Rightarrow> 0),
          example_stat (Suc 0) (case temp (Suc 0) of Some t \<Rightarrow> real t | None \<Rightarrow> 0)]"
  by (simp add: get_nvidia_stats_def upt_conv_Cons device_stat_example)

subsection \<open>The flags are shared by all devices\<close>

lemma check_alerts_hot_cool:
  "check_alerts default_thresholds (\<lambda>_. False) [example_stat 0 85, example_stat (Suc 0) 70] =
     ([Alert Temperature 0 85 80], (\<lambda>_. False))"
  by (simp add: check_alerts_stat_def check_metric_def example_stat_def fun_eq_iff)

text \<open>
  Claim C1 (alert state per device and metric). \<open>self.alert_states\<close> has one flag per
  metric, and \<open>check_alerts\<close> reads and writes it for every device in turn. With the default
  thresholds and two devices, GPU 0 at 85 degrees and GPU 1 at 70 degrees in two consecutive
  ticks, the sample of GPU 1 clears the temperature flag that GPU 0 raised, and the
  temperature alert of GPU 0 is sent again in the second tick although GPU 0 never fell to
  the threshold.
\<close>

theorem shared_alert_flag_realerts:
  "map alerts (fst (run_ticks
      [example_nvml (\<lambda>h. Some (if h = 0 then 85 else 70)) example_memory,
       example_nvml (\<lambda>h. Some (if h = 0 then 85 else 70)) example_memory]
      (init_app default_thresholds 2))) =
   [[Alert Temperature 0 85 80], [Alert Temperature 0 85 80]]"
proof -
  let ?nv = "example_nvml (\<lambda>h. Some (if h = 0 then 85 else 70)) example_memory"
  have tick: "alerts (fst (update_stats ?nv a)) = [Alert Temperature 0 85 80] \<and>
      thresholds (snd (update_stats ?nv a)) = default_thresholds \<and>
      alert_states (snd (update_stats ?nv a)) = (\<lambda>_. False) \<and>
      device_count (snd (update_stats ?nv a)) = 2"
    if a: "thresholds a = default_thresholds" "alert_states a = (\<lambda>_. False)" "device_count a = 2"
    for a
  proof -
    have s: "get_nvidia_stats ?nv (device_count a) =
        Inr [example_stat 0 85, example_stat (Suc 0) 70]"
      by (simp add: a stats_example_2)
    show ?thesis
      by (simp add: update_stats_alerts [OF s] update_stats_state [OF s] a check_alerts_hot_cool
          del: check_alerts.simps)
  qed
  have t0: "thresholds (init_app default_thresholds 2) = default_thresholds"
    "alert_states (init_app default_thresholds 2) = (\<lambda>_. False)"
    "device_count (init_app default_thresholds 2) = 2"
    by (simp_all add: init_app_def)
  note first = tick [OF t0]
  note second = tick [of "snd (update_stats ?nv (init_app default_thresholds 2))"]
  show ?thesis
    using first second by (simp add: split_beta)
qed

subsection \<open>Hysteresis\<close>

text \<open>
  Claim C5 (the sequence T-1, T+1, T+1, T-1, T+1). For every metric, every threshold and
  every state of the flags, five ticks of one device whose values for the metric are
  T-1, T+1, T+1, T-1, T+1 raise an alert for the metric in the second and in the fifth tick
  and in no other.
\<close>

theorem alert_sequence_two_events:
  assumes "stat_get s1 m = th m - 1" "stat_get s2 m = th m + 1" "stat_get s3 m = th m + 1"
    "stat_get s4 m = th m - 1" "stat_get s5 m = th m + 1"
  shows "map (filter (\<lambda>a. alert_metric a = m))
           (fst (check_alerts_ticks th st [[s1], [s2], [s3], [s4], [s5]])) =
         [[], [Alert m (gpu_index s2) (th m + 1) (th m)], [], [],
          [Alert m (gpu_index s5) (th m + 1) (th m)]]"
  using assms
  by (simp add: check_alerts_single check_alerts_stat_alerts check_alerts_stat_flag split_beta)

theorem alert_sequence_two_events_witness:
  "stat_get (example_stat 0 79) Temperature = default_thresholds Temperature - 1 \<and>
   stat_get (example_stat 0 81) Temperature = default_thresholds Temperature + 1 \<and>
   map (filter (\<lambda>a. alert_metric a = Temperature))
     (fst (check_alerts_ticks default_thresholds (\<lambda>_. False)
        [[example_stat 0 79], [example_stat 0 81], [example_stat 0 81], [example_stat 0 79],
         [example_stat 0 81]])) =
   [[], [Alert Temperature 0 81 80], [], [], [Alert Temperature 0 81 80]]"
  using alert_sequence_two_events [where ?s1.0 = "example_stat 0 79"
      and ?s2.0 = "example_stat 0 81" and ?s3.0 = "example_stat 0 81"
      and ?s4.0 = "example_stat 0 79" and ?s5.0 = "example_stat 0 81" and m = Temperature
      and th = default_thresholds and st = "\<lambda>_. False"]
  by (simp add: example_stat_def)

subsection \<open>A failed query reads as zero\<close>

lemma device_stat_failed_query:
  assumes "nvmlDeviceGetHandleByIndex nv i = Some h" "metric_query_fails nv h m"
    "device_stat nv i = Inr s"
  shows "stat_get s m = 0"
  using assms
  by (cases m)
     (auto simp: device_stat_def memory_group_def utilization_group_def temperature_group_def
        power_group_def split: sum.splits option.splits if_splits)

text \<open>
  Claim C9 (a failed query clears the alert). When the query behind a metric fails, the
  sample carries 0 for the metric; for a threshold that is not negative, evaluating the
  sample raises no alert for the metric and leaves its flag down, whatever the flag was
  before (armed in particular), and the next sample above the threshold raises the alert
  afresh.
\<close>

theorem failed_query_clears_alert:
  assumes "0 \<le> th m" "nvmlDeviceGetHandleByIndex nv i = Some h" "metric_query_fails nv h m"
    "device_stat nv i = Inr s" "stat_get s' m > th m"
  shows "stat_get s m = 0 \<and>
    filter (\<lambda>a. alert_metric a = m) (fst (check_alerts_stat th st s)) = [] \<and>
    \<not> snd (check_alerts_stat th st s) m \<and>
    filter (\<lambda>a. alert_metric a = m)
       (fst (check_alerts_stat th (snd (check_alerts_stat th st s)) s')) =
      [Alert m (gpu_index s') (stat_get s' m) (th m)]"
  using assms device_stat_failed_query [OF assms(2,3,4)]
  by (simp add: check_alerts_stat_alerts check_alerts_stat_flag)

theorem failed_query_clears_alert_witness:
  "0 \<le> default_thresholds Temperature \<and>
   nvmlDeviceGetHandleByIndex (example_nvml (\<lambda>h. None) example_memory) 0 = Some 0 \<and>
   metric_query_fails (example_nvml (\<lambda>h. None) example_memory) 0 Temperature \<and>
   device_stat (example_nvml (\<lambda>h. None) example_memory) 0 = Inr (example_stat 0 0) \<and>
   stat_get (example_stat 0 85) Temperature > default_thresholds Temperature \<and>
   \<not> snd (check_alerts_stat default_thresholds (\<lambda>_. True) (example_stat 0 0)) Temperature \<and>
   filter (\<lambda>a. alert_metric a = Temperature)
       (fst (check_alerts_stat default_thresholds
          (snd (check_alerts_stat default_thresholds (\<lambda>_. True) (example_stat 0 0)))
          (example_stat 0 85))) =
      [Alert Temperature 0 85 80]"
proof -
  have d: "device_stat (example_nvml (\<lambda>h. None) example_memory) 0 = Inr (example_stat 0 0)"
    by (simp add: device_stat_example)
  have h: "nvmlDeviceGetHandleByIndex (example_nvml (\<lambda>h. None) example_memory) 0 = Some 0"
    by (simp add: example_nvml_def)
  have q: "metric_query_fails (example_nvml (\<lambda>h. None) example_memory) 0 Temperature"
    by (simp add: example_nvml_def)
  have b: "stat_get (example_stat 0 85) Temperature > default_thresholds Temperature"
    by (simp add: example_stat_def)
  show ?thesis
    using failed_query_clears_alert [where th = default_thresholds and m = Temperature
        and st = "\<lambda>_. True", OF _ h q d b] d h q b
    by (simp add: example_stat_def)
qed

subsection \<open>Which memory figure the alert uses\<close>

lemma check_metric_rate:
  "check_metric th (s\<lparr>memory_utilization_rate := r\<rparr>) m p = check_metric th s m p"
  by (cases p, cases m) (simp_all add: check_metric_def)

lemma check_alerts_stat_rate:
  "check_alerts_stat th st (s\<lparr>memory_utilization_rate := r\<rparr>) = check_alerts_stat th st s"
  by (simp add: check_alerts_stat_def check_metric_rate)

lemma check_alerts_rate:
  "check_alerts th st (map (\<lambda>s. s\<lparr>memory_utilization_rate := r s\<rparr>) stats) =
     check_alerts th st stats"
  by (induction stats arbitrary: st) (simp_all add: check_alerts_stat_rate)

text \<open>
  Claim C10 (the memory alert uses \<open>memory_utilization\<close>). The memory-utilization alert of a
  sample is decided by comparing its \<open>memory_utilization\<close> field, the percentage derived
  from used and total memory, with the threshold; and replacing the
  \<open>memory_utilization_rate\<close> field of every sample by any other value changes neither the
  alerts nor the flags that \<open>check_alerts\<close> returns.
\<close>

theorem memory_alert_ignores_rate:
  "filter (\<lambda>a. alert_metric a = Memory_utilization) (fst (check_alerts_stat th st s)) =
     (if memory_utilization s > th Memory_utilization \<and> \<not> st Memory_utilization
      then [Alert Memory_utilization (gpu_index s) (memory_utilization s)
              (th Memory_utilization)]
      else []) \<and>
   check_alerts th st (map (\<lambda>s. s\<lparr>memory_utilization_rate := r s\<rparr>) stats) =
     check_alerts th st stats"
  using check_alerts_stat_alerts [of Memory_utilization th st s]
    check_alerts_rate [of th st r stats]
  by simp

section \<open>The telemetry adapter\<close>

text \<open>
  Claim C2 (memory utilization when total is 0). The source divides \<open>mem_info.used\<close> by
  \<open>mem_info.total\<close> without looking at the divisor. When the memory query of a device
  succeeds and reports a total of 0, the division raises \<open>ZeroDivisionError\<close>, which the
  handler for \<open>NVMLError\<close> does not catch: \<open>get_nvidia_stats\<close> returns no sample at all,
  and the tick ends after its first stage with the exception caught by \<open>update_stats\<close>.
\<close>

theorem memory_total_zero_raises:
  "get_nvidia_stats (example_nvml (\<lambda>h. Some 50) (\<lambda>h. Some \<lparr>total = 0, used = 0\<rparr>)) 1 =
     Inl ZeroDivisionError \<and>
   caught (fst (update_stats (example_nvml (\<lambda>h. Some 50) (\<lambda>h. Some \<lparr>total = 0, used = 0\<rparr>))
      (init_app default_thresholds 1))) = Some ZeroDivisionError \<and>
   trace (fst (update_stats (example_nvml (\<lambda>h. Some 50) (\<lambda>h. Some \<lparr>total = 0, used = 0\<rparr>))
      (init_app default_thresholds 1))) = [Get_nvidia_stats]"
proof -
  let ?nv = "example_nvml (\<lambda>h. Some 50) (\<lambda>h. Some \<lparr>total = 0, used = 0\<rparr>)"
  have r: "get_nvidia_stats ?nv (Suc 0) = Inl ZeroDivisionError"
    by (simp add: get_nvidia_stats_def device_stat_def example_nvml_def memory_group_def)
  then have "get_nvidia_stats ?nv (device_count (init_app default_thresholds 1)) =
      Inl ZeroDivisionError"
    by (simp add: init_app_def)
  then show ?thesis
    using r by (simp add: update_stats_raise trace_def)
qed

section \<open>The process ranker\<close>

lemma sorted_reverse_mset: "mset (sorted_reverse key xs) = mset xs"
  by (simp add: sorted_reverse_def)

lemma sorted_reverse_descending:
  "sorted_wrt (\<lambda>x y. key x \<ge> key y) (sorted_reverse key xs)"
proof -
  have "sorted (map key (sort_key key (rev xs)))" by simp
  then have "sorted_wrt (\<lambda>x y. key x \<le> key y) (sort_key key (rev xs))"
    by (simp add: sorted_map)
  then show ?thesis
    by (simp add: sorted_reverse_def sorted_wrt_rev)
qed

lemma sorted_reverse_stable:
  "filter (\<lambda>y. key y = k) (sorted_reverse key xs) = filter (\<lambda>y. key y = k) xs"
  by (simp add: sorted_reverse_def sort_key_stable flip: rev_filter)

text \<open>
  Claim C7 (the process ranker). The processes shown for a device are the first 20 of a
  rearrangement of the discovered entries that is ordered by \<open>used_memory\<close>, largest first,
  and keeps entries of equal memory in their discovery order; entries with memory 5, 20, 5, 1
  and pids 1, 2, 3, 4 come out as pids 2, 1, 3, 4.
\<close>

theorem display_processes_ranked:
  "(\<exists>ranked. display_processes procs = take 20 ranked \<and> mset ranked = mset procs \<and>
      sorted_wrt (\<lambda>p q. used_memory p \<ge> used_memory q) ranked \<and>
      (\<forall>k. filter (\<lambda>p. used_memory p = k) ranked = filter (\<lambda>p. used_memory p = k) procs)) \<and>
   length (display_processes procs) \<le> 20 \<and>
   map pid (display_processes
      [example_process 1 5, example_process 2 20, example_process 3 5, example_process 4 1]) =
     [2, 1, 3, 4]"
proof -
  have "display_processes procs = take 20 (sorted_reverse used_memory procs)"
    by (simp add: display_processes_def)
  then have a: "\<exists>ranked. display_processes procs = take 20 ranked \<and> mset ranked = mset procs \<and>
      sorted_wrt (\<lambda>p q. used_memory p \<ge> used_memory q) ranked \<and>
      (\<forall>k. filter (\<lambda>p. used_memory p = k) ranked = filter (\<lambda>p. used_memory p = k) procs)"
    using sorted_reverse_mset [of used_memory procs]
      sorted_reverse_descending [of used_memory procs]
      sorted_reverse_stable [of used_memory _ procs]
    by blast
  have b: "length (display_processes procs) \<le> 20"
    by (simp add: display_processes_def)
  have c: "map pid (display_processes
      [example_process 1 5, example_process 2 20, example_process 3 5, example_process 4 1]) =
     [2, 1, 3, 4]"
    by (simp add: display_processes_def sorted_reverse_def example_process_def)
  from a b c show ?thesis by blast
qed

section \<open>The history store\<close>

subsection \<open>A bounded deque keeps the last elements\<close>

lemma deque_append_drop:
  "length d \<le> n \<Longrightarrow> deque_append n d x = drop (Suc (length d) - n) (d @ [x])"
  by (cases d) (auto simp: deque_append_def Let_def Suc_diff_le drop_Suc)

lemma deque_append_length:
  "length d \<le> n \<Longrightarrow> length (deque_append n d x) \<le> n"
  by (auto simp: deque_append_def Let_def)

lemma drop_snoc_step:
  assumes "n < length ys"
  shows "drop (Suc 0) (drop (length ys - n) ys @ [x]) = drop (Suc (length ys) - n) (ys @ [x])"
proof (cases "n = 0")
  case True
  then show ?thesis by simp
next
  case False
  with assms have a: "length ys - n < length ys" by arith
  have b: "Suc (length ys) - n = Suc (length ys - n)"
    using assms by arith
  have c: "Suc (length ys - n) - length ys = 0"
    using False assms by arith
  have "drop (Suc 0) (drop (length ys - n) ys @ [x]) = drop (Suc 0) (drop (length ys - n) ys) @ [x]"
    using a by (cases "drop (length ys - n) ys") simp_all
  also have "\<dots> = drop (Suc (length ys - n)) ys @ [x]"
    by simp
  also have "\<dots> = drop (Suc (length ys - n)) (ys @ [x])"
    by (simp only: drop_append c drop_0)
  finally show ?thesis
    by (simp only: b)
qed

lemma deque_append_kept:
  "deque_append n (drop (length ys - n) ys) x = drop (Suc (length ys) - n) (ys @ [x])"
proof -
  let ?kept = "drop (length ys - n) ys"
  have len: "length ?kept \<le> n" by simp
  have "deque_append n ?kept x = drop (Suc (length ?kept) - n) (?kept @ [x])"
    by (rule deque_append_drop [OF len])
  also have "\<dots> = drop (Suc (length ys) - n) (ys @ [x])"
  proof (cases "length ys \<le> n")
    case True
    then show ?thesis by simp
  next
    case False
    then have n: "n < length ys" by simp
    then have e: "Suc (length ?kept) - n = Suc 0" by simp
    show ?thesis
      by (simp only: e drop_snoc_step [OF n])
  qed
  finally show ?thesis .
qed

lemma foldl_deque_append:
  "foldl (deque_append n) [] xs = drop (length xs - n) xs"
proof (induction xs rule: rev_induct)
  case Nil
  then show ?case by simp
next
  case (snoc x xs)
  then show ?case
    by (simp add: deque_append_kept)
qed

subsection \<open>\<open>update_dashboard_graphs\<close> appends to every buffer\<close>

lemma graphs_loop_zip:
  "i + length ss = length bs \<Longrightarrow>
   graphs_loop ct i ss bs = (take i bs @ map2 (append_buffer ct) ss (drop i bs), None)"
proof (induction ss arbitrary: i bs)
  case Nil
  then show ?case by simp
next
  case (Cons s ss)
  then have i: "i < length bs" by simp
  let ?bs = "bs[i := append_buffer ct s (bs ! i)]"
  have len: "Suc i + length ss = length ?bs" using Cons.prems by simp
  have t: "take (Suc i) ?bs = take i bs @ [append_buffer ct s (bs ! i)]"
    using i by (simp add: take_Suc_conv_app_nth)
  have d: "drop (Suc i) ?bs = drop (Suc i) bs" by simp
  have e: "drop i bs = bs ! i # drop (Suc i) bs"
    using i by (simp add: Cons_nth_drop_Suc)
  show ?case
    using i Cons.IH [OF len] by (simp add: t d e)
qed

lemma update_dashboard_graphs_zip:
  assumes "bs \<noteq> []" "length stats = length bs"
  shows "update_dashboard_graphs stats bs =
           (map2 (append_buffer (length (time (hd bs)))) stats bs, None)"
  using assms graphs_loop_zip [of 0 stats bs "length (time (hd bs))"]
  by (cases bs) (simp_all add: update_dashboard_graphs_def)

lemma update_dashboard_graphs_nth:
  assumes "length stats = length bs" "i < length bs"
  shows "fst (update_dashboard_graphs stats bs) ! i =
           append_buffer (length (time (hd bs))) (stats ! i) (bs ! i)"
proof -
  from assms have "bs \<noteq> []" by auto
  then show ?thesis
    using assms by (simp add: update_dashboard_graphs_zip)
qed

lemma graphs_ticks_snoc:
  "graphs_ticks (ticks @ [stats]) bs = fst (update_dashboard_graphs stats (graphs_ticks ticks bs))"
  by (induction ticks arbitrary: bs) simp_all

lemma graphs_ticks_length: "length (graphs_ticks ticks bs) = length bs"
  by (induction ticks arbitrary: bs) (simp_all add: update_dashboard_graphs_length)

lemma graphs_ticks_series:
  assumes "\<forall>stats \<in> set ticks. length stats = length bs" "i < length bs"
  shows "series (graphs_ticks ticks bs ! i) m =
           foldl (deque_append buffer_size) (series (bs ! i) m) (map (\<lambda>stats. stat_get (stats ! i) m) ticks)"
  using assms
proof (induction ticks rule: rev_induct)
  case Nil
  then show ?case by simp
next
  case (snoc stats ticks)
  have l: "length stats = length (graphs_ticks ticks bs)"
    using snoc.prems by (simp add: graphs_ticks_length)
  have i: "i < length (graphs_ticks ticks bs)"
    using snoc.prems by (simp add: graphs_ticks_length)
  show ?case
    using snoc
    by (simp add: graphs_ticks_snoc update_dashboard_graphs_nth [OF l i] append_buffer_def)
qed

text \<open>
  Claim C6 (the rolling buffer). Starting from the empty buffers of \<open>__init__\<close>, after
  capacity + k ticks the series of every device and metric holds exactly the last 60 values
  appended, in the order of their ticks, and after any number of ticks (every prefix of the
  run) the series has at most 60 values.
\<close>

theorem series_keeps_last_values:
  assumes "\<forall>stats \<in> set ticks. length stats = n" "i < n" "length ticks = buffer_size + k"
  shows "series (graphs_ticks ticks (data_buffers (init_app th n)) ! i) m =
           drop k (map (\<lambda>stats. stat_get (stats ! i) m) ticks) \<and>
         length (series (graphs_ticks ticks (data_buffers (init_app th n)) ! i) m) = buffer_size \<and>
         (\<forall>j. length (series (graphs_ticks (take j ticks) (data_buffers (init_app th n)) ! i) m)
                \<le> buffer_size)"
proof -
  let ?bs = "data_buffers (init_app th n)"
  have n: "length ?bs = n" by (simp add: init_app_def)
  have e: "series (?bs ! i) m = []"
    using assms(2) by (simp add: init_app_def empty_buffer_def)
  have s: "series (graphs_ticks ts ?bs ! i) m =
             drop (length ts - buffer_size) (map (\<lambda>stats. stat_get (stats ! i) m) ts)"
    if "\<forall>stats \<in> set ts. length stats = n" for ts
    using graphs_ticks_series [of ts ?bs i m] that assms(2) n e
    by (simp add: foldl_deque_append)
  have p: "\<forall>stats \<in> set (take j ticks). length stats = n" for j
    using assms(1) by (meson in_set_takeD)
  have a: "series (graphs_ticks ticks ?bs ! i) m = drop k (map (\<lambda>stats. stat_get (stats ! i) m) ticks)"
    using s [OF assms(1)] assms(3) by simp
  have b: "length (series (graphs_ticks ticks ?bs ! i) m) = buffer_size"
    using a assms(3) by simp
  have c: "length (series (graphs_ticks (take j ticks) ?bs ! i) m) \<le> buffer_size" for j
    using s [OF p [of j]] by simp
  from a b c show ?thesis by blast
qed

theorem series_keeps_last_values_witness:
  "(0::nat) < 1 \<and>
   length (map (\<lambda>t. [example_stat 0 (real t)]) [0..<61]) = buffer_size + 1 \<and>
   series (graphs_ticks (map (\<lambda>t. [example_stat 0 (real t)]) [0..<61])
      (data_buffers (init_app default_thresholds 1)) ! 0) Temperature =
     map real [1..<61] \<and>
   length (series (graphs_ticks (map (\<lambda>t. [example_stat 0 (real t)]) [0..<61])
      (data_buffers (init_app default_thresholds 1)) ! 0) Temperature) = buffer_size"
proof -
  have a: "\<forall>stats \<in> set (map (\<lambda>t. [example_stat 0 (real t)]) [0..<61]). length stats = 1"
    by simp
  have b: "(0::nat) < 1" by simp
  have c: "length (map (\<lambda>t. [example_stat 0 (real t)]) [0..<61]) = buffer_size + 1"
    by (simp add: buffer_size_def)
  have d: "drop 1 (map (\<lambda>stats. stat_get (stats ! 0) Temperature)
             (map (\<lambda>t. [example_stat 0 (real t)]) [0..<61])) = map real [1..<61]"
    by (simp add: example_stat_def drop_map comp_def)
  show ?thesis
    using series_keeps_last_values [OF a b c, of default_thresholds Temperature] b c d
    by simp
qed

subsection \<open>The timestamps\<close>

lemma tick_time_funpow:
  "(tick_time ^^ j) [] = drop (j - buffer_size) (map (min buffer_size) [0..<j])"
proof (induction j)
  case 0
  then show ?case by simp
next
  case (Suc j)
  let ?ys = "map (min buffer_size) [0..<j]"
  have l: "length (drop (j - buffer_size) ?ys) = min buffer_size j" by simp
  have "(tick_time ^^ Suc j) [] = tick_time (drop (length ?ys - buffer_size) ?ys)"
    using Suc by simp
  also have "\<dots> = deque_append buffer_size (drop (length ?ys - buffer_size) ?ys) (min buffer_size j)"
    using l by (simp add: tick_time_def)
  also have "\<dots> = drop (Suc (length ?ys) - buffer_size) (?ys @ [min buffer_size j])"
    by (rule deque_append_kept)
  finally show ?case by simp
qed

lemma graphs_ticks_time:
  assumes "\<forall>stats \<in> set ticks. length stats = length bs" "\<forall>b \<in> set bs. time b = d"
  shows "\<forall>i < length bs. time (graphs_ticks ticks bs ! i) = (tick_time ^^ length ticks) d"
  using assms(1)
proof (induction ticks rule: rev_induct)
  case Nil
  then show ?case using assms(2) by simp
next
  case (snoc stats ticks)
  let ?B = "graphs_ticks ticks bs"
  have l: "length stats = length ?B"
    using snoc.prems by (simp add: graphs_ticks_length)
  have IH: "\<forall>i < length bs. time (?B ! i) = (tick_time ^^ length ticks) d"
    using snoc by simp
  show ?case
  proof (intro allI impI)
    fix i assume i: "i < length bs"
    then have i': "i < length ?B" by (simp add: graphs_ticks_length)
    from i' have "?B \<noteq> []" by auto
    then have h: "hd ?B = ?B ! 0" by (simp add: hd_conv_nth)
    from i have z: "0 < length bs" by arith
    show "time (graphs_ticks (ticks @ [stats]) bs ! i) = (tick_time ^^ length (ticks @ [stats])) d"
      using IH i z
      by (simp add: graphs_ticks_snoc update_dashboard_graphs_nth [OF l i'] append_buffer_def h
          tick_time_def)
  qed
qed

lemma last_timestamp:
  assumes "0 < j"
  shows "last (time (graphs_ticks (replicate j [s]) (data_buffers (init_app th 1)) ! 0)) =
           min buffer_size (j - 1)"
proof -
  let ?bs = "data_buffers (init_app th 1)"
  have a: "\<forall>stats \<in> set (replicate j [s]). length stats = length ?bs"
    by (simp add: init_app_def)
  have b: "\<forall>b \<in> set ?bs. time b = []"
    by (simp add: init_app_def empty_buffer_def)
  have "time (graphs_ticks (replicate j [s]) ?bs ! 0) = (tick_time ^^ j) []"
    using graphs_ticks_time [OF a b] by (simp add: init_app_def)
  also have "\<dots> = drop (j - buffer_size) (map (min buffer_size) [0..<j])"
    by (rule tick_time_funpow)
  finally have t: "time (graphs_ticks (replicate j [s]) ?bs ! 0) =
      drop (j - buffer_size) (map (min buffer_size) [0..<j])" .
  have "j - buffer_size < length (map (min buffer_size) [0..<j])"
    using assms by (simp add: buffer_size_def)
  then have "last (drop (j - buffer_size) (map (min buffer_size) [0..<j])) =
      last (map (min buffer_size) [0..<j])"
    by (rule last_drop)
  also have "\<dots> = min buffer_size (j - 1)"
    using assms by (simp add: last_map)
  finally show ?thesis using t by simp
qed

text \<open>
  Claim C3 (strictly increasing timestamps). The timestamp of a tick is the length of the
  \<open>time\<close> deque of device 0 at the start of the tick, and that deque never grows beyond 60
  entries. On one device the timestamp appended in tick 61 is 60 and the timestamp appended
  in tick 62 is 60 again, whatever the samples are: it is not greater than its predecessor.
\<close>

theorem timestamp_repeats_after_capacity:
  "last (time (graphs_ticks (replicate 61 [s]) (data_buffers (init_app th 1)) ! 0)) = 60 \<and>
   last (time (graphs_ticks (replicate 62 [s]) (data_buffers (init_app th 1)) ! 0)) = 60"
  using last_timestamp [of 61 s th] last_timestamp [of 62 s th]
  by (simp add: buffer_size_def)

section \<open>The scheduler\<close>


lemma stats_example_1:
  "get_nvidia_stats (example_nvml temp example_memory) (Suc 0) =
     Inr [example_stat 0 (case temp 0 of Some t \<Rightarrow> real t | None \<Rightarrow> 0)]"
  by (simp add: get_nvidia_stats_def device_stat_example)

lemma not_precedes_last_block:
  assumes "x \<notin> set pre" "y \<noteq> x"
  shows "\<not> precedes x y (pre @ replicate g x)"
proof -
  have "dropWhile (\<lambda>z. z \<noteq> x) (pre @ replicate g x) = dropWhile (\<lambda>z. z \<noteq> x) (replicate g x)"
    using assms(1) by (intro dropWhile_append2) auto
  also have "\<dots> = replicate g x"
    by (cases g) simp_all
  finally have "set (drop 1 (dropWhile (\<lambda>z. z \<noteq> x) (pre @ replicate g x))) \<subseteq> {x}"
    by (auto dest: in_set_dropD)
  with assms(2) show ?thesis
    by (auto simp: precedes_def)
qed

lemma trace_of_tick:
  assumes "get_nvidia_stats nv (device_count a) = Inr stats"
  shows "trace (fst (update_stats nv a)) =
           [Get_nvidia_stats, Update_stats_table] @
           replicate (length (update_process_tables (device_count a) stats))
             Update_process_tables @
           replicate (length (fst (check_alerts (thresholds a) (alert_states a) stats)))
             Check_alerts @
           replicate (min (length stats) (length (data_buffers a))) Update_dashboard_graphs"
  by (simp add: trace_def update_stats_journal [OF assms] comp_def split_beta
      map_replicate_const)

text \<open>
  Claim C4 (the order of the stages of a tick), as amended. A tick queries the library first.
  When the sample is obtained, the calls of the tick come in this order: one write of the
  statistics table, one write per process table (which ranks the processes), one
  notification per alert that the alert evaluation raises, and last one redraw per device
  whose history was appended. No history update comes before an alert of the same tick, and
  the alerts and alert flags of the tick are those of \<open>check_alerts\<close> on the sample, whether
  or not the history update raises afterwards.
\<close>

theorem tick_stage_order:
  assumes "get_nvidia_stats nv (device_count a) = Inr stats"
  shows "trace (fst (update_stats nv a)) =
           [Get_nvidia_stats, Update_stats_table] @
           replicate (length (update_process_tables (device_count a) stats))
             Update_process_tables @
           replicate (length (fst (check_alerts (thresholds a) (alert_states a) stats)))
             Check_alerts @
           replicate (min (length stats) (length (data_buffers a))) Update_dashboard_graphs \<and>
         \<not> precedes Update_dashboard_graphs Check_alerts (trace (fst (update_stats nv a))) \<and>
         alerts (fst (update_stats nv a)) =
           fst (check_alerts (thresholds a) (alert_states a) stats) \<and>
         alert_states (snd (update_stats nv a)) =
           snd (check_alerts (thresholds a) (alert_states a) stats)"
proof -
  let ?pre = "[Get_nvidia_stats, Update_stats_table] @
           replicate (length (update_process_tables (device_count a) stats))
             Update_process_tables @
           replicate (length (fst (check_alerts (thresholds a) (alert_states a) stats)))
             Check_alerts"
  have t: "trace (fst (update_stats nv a)) =
      ?pre @ replicate (min (length stats) (length (data_buffers a))) Update_dashboard_graphs"
    using trace_of_tick [OF assms] by simp
  have n: "Update_dashboard_graphs \<notin> set ?pre" by auto
  have p: "\<not> precedes Update_dashboard_graphs Check_alerts (trace (fst (update_stats nv a)))"
    unfolding t by (rule not_precedes_last_block [OF n]) simp
  show ?thesis
    using trace_of_tick [OF assms] p update_stats_alerts [OF assms] update_stats_state [OF assms]
    by simp
qed

lemma hot_tick_trace:
  "trace (fst (update_stats (example_nvml (\<lambda>h. Some 85) example_memory)
      (init_app default_thresholds 1))) =
     [Get_nvidia_stats, Update_stats_table, Update_process_tables, Check_alerts,
      Update_dashboard_graphs]"
proof -
  have a: "get_nvidia_stats (example_nvml (\<lambda>h. Some 85) example_memory)
      (device_count (init_app default_thresholds 1)) = Inr [example_stat 0 85]"
    by (simp add: init_app_def stats_example_1)
  have c: "check_alerts default_thresholds (\<lambda>_. False) [example_stat 0 85] =
      ([Alert Temperature 0 85 80], (\<lambda>_. False)(Temperature := True))"
    by (simp add: check_alerts_stat_def check_metric_def example_stat_def fun_eq_iff)
  show ?thesis
    using trace_of_tick [OF a]
    by (simp add: init_app_def c update_process_tables_def del: check_alerts.simps)
qed

theorem tick_stage_order_witness:
  "get_nvidia_stats (example_nvml (\<lambda>h. Some 85) example_memory)
      (device_count (init_app default_thresholds 1)) = Inr [example_stat 0 85] \<and>
   trace (fst (update_stats (example_nvml (\<lambda>h. Some 85) example_memory)
      (init_app default_thresholds 1))) =
     [Get_nvidia_stats, Update_stats_table, Update_process_tables, Check_alerts,
      Update_dashboard_graphs] \<and>
   alerts (fst (update_stats (example_nvml (\<lambda>h. Some 85) example_memory)
      (init_app default_thresholds 1))) = [Alert Temperature 0 85 80]"
proof -
  have a: "get_nvidia_stats (example_nvml (\<lambda>h. Some 85) example_memory)
      (device_count (init_app default_thresholds 1)) = Inr [example_stat 0 85]"
    by (simp add: init_app_def stats_example_1)
  have c: "check_alerts default_thresholds (\<lambda>_. False) [example_stat 0 85] =
      ([Alert Temperature 0 85 80], (\<lambda>_. False)(Temperature := True))"
    by (simp add: check_alerts_stat_def check_metric_def example_stat_def fun_eq_iff)
  show ?thesis
    using tick_stage_order [OF a] a hot_tick_trace
    by (simp add: init_app_def c del: check_alerts.simps)
qed

text \<open>
  Claim C4 as stated, with the history update before the alert evaluation, fails on a tick
  of one device at 85 degrees with the default thresholds: the temperature alert is sent
  before the curves are redrawn from the updated history, and not after.
\<close>

theorem history_not_before_alerts:
  "precedes Check_alerts Update_dashboard_graphs
     (trace (fst (update_stats (example_nvml (\<lambda>h. Some 85) example_memory)
        (init_app default_thresholds 1)))) \<and>
   \<not> precedes Update_dashboard_graphs Check_alerts
       (trace (fst (update_stats (example_nvml (\<lambda>h. Some 85) example_memory)
          (init_app default_thresholds 1))))"
  using hot_tick_trace by (simp add: precedes_def)

section \<open>Isolation of a failing query\<close>

lemma fail_query_handle:
  "nvmlDeviceGetHandleByIndex (fail_query q h nv) = nvmlDeviceGetHandleByIndex nv"
  by (cases q) simp_all

lemma name_group_fail:
  "name_group (fail_query q h nv) h' =
     (if q = Name_query \<and> h' = h then ''Unknown'' else name_group nv h')"
  by (cases q) (simp_all add: name_group_def)

lemma memory_group_fail:
  "memory_group (fail_query q h nv) h' =
     (if q = Memory_query \<and> h' = h then Inr (0, 0, 0) else memory_group nv h')"
  by (cases q) (simp_all add: memory_group_def)

lemma utilization_group_fail:
  "utilization_group (fail_query q h nv) h' =
     (if q = Utilization_query \<and> h' = h then (0, 0) else utilization_group nv h')"
  by (cases q) (simp_all add: utilization_group_def)

lemma temperature_group_fail:
  "temperature_group (fail_query q h nv) h' =
     (if q = Temperature_query \<and> h' = h then 0 else temperature_group nv h')"
  by (cases q) (simp_all add: temperature_group_def)

lemma power_group_fail:
  "power_group (fail_query q h nv) h' =
     (if (q = Power_usage_query \<or> q = Power_limit_query) \<and> h' = h then (0, 0)
      else power_group nv h')"
  by (cases q) (simp_all add: power_group_def split: option.splits)

lemma fan_group_fail:
  "fan_group (fail_query q h nv) h' =
     (if q = Fan_query \<and> h' = h then 0 else fan_group nv h')"
  by (cases q) (simp_all add: fan_group_def)

lemma clock_group_fail:
  "clock_group (fail_query q h nv) h' =
     (if q = Clock_query \<and> h' = h then 0 else clock_group nv h')"
  by (cases q) (simp_all add: clock_group_def)

lemma process_group_filter:
  "filter (\<lambda>p. ptype p \<noteq> ty)
     (map ((\<lambda>proc. proc\<lparr>pname := f (pid proc)\<rparr>) \<circ> proc_entry ty') ps) =
   (if ty' = ty then [] else map ((\<lambda>proc. proc\<lparr>pname := f (pid proc)\<rparr>) \<circ> proc_entry ty') ps)"
  by (induction ps) (simp_all add: proc_entry_def)

lemma get_process_name_fail:
  "get_process_name (fail_query q h nv) = get_process_name nv"
  by (cases q) simp_all

lemma process_group_fail_compute:
  "process_group (fail_query Compute_processes_query h nv) h' =
     (if h' = h then filter (\<lambda>p. ptype p \<noteq> ''C'') (process_group nv h') else process_group nv h')"
  by (simp add: process_group_def process_group_filter split: option.splits)

lemma process_group_fail_graphics:
  "process_group (fail_query Graphics_processes_query h nv) h' =
     (if h' = h then filter (\<lambda>p. ptype p \<noteq> ''G'') (process_group nv h') else process_group nv h')"
  by (simp add: process_group_def process_group_filter split: option.splits)

lemma process_group_fail_other:
  "q \<noteq> Compute_processes_query \<Longrightarrow> q \<noteq> Graphics_processes_query \<Longrightarrow>
   process_group (fail_query q h nv) h' = process_group nv h'"
  by (cases q) (simp_all add: process_group_def)

lemmas group_fail =
  name_group_fail memory_group_fail utilization_group_fail temperature_group_fail
  power_group_fail fan_group_fail clock_group_fail process_group_fail_compute
  process_group_fail_graphics process_group_fail_other

lemma device_stat_gpu_index: "device_stat nv i = Inr s \<Longrightarrow> gpu_index s = i"
  by (auto simp: device_stat_def split: option.splits sum.splits)

lemma device_stat_other_handle:
  assumes "nvmlDeviceGetHandleByIndex nv i \<noteq> Some h"
  shows "device_stat (fail_query q h nv) i = device_stat nv i"
proof (cases "nvmlDeviceGetHandleByIndex nv i")
  case None
  then show ?thesis by (simp add: device_stat_def fail_query_handle)
next
  case (Some h')
  with assms have "h' \<noteq> h" by simp
  then show ?thesis
    using Some
    by (cases q)
       (simp_all add: device_stat_def fail_query_handle group_fail del: fail_query.simps
          split: sum.splits)
qed

lemma device_stat_fail_query:
  assumes "device_stat nv i = Inr s" "nvmlDeviceGetHandleByIndex nv i = Some h"
  shows "device_stat (fail_query q h nv) i = Inr (sentinel q s)"
proof -
  from assms obtain mt mu mutil where m: "memory_group nv h = Inr (mt, mu, mutil)"
    by (auto simp: device_stat_def split: sum.splits)
  from assms m have s: "s =
    \<lparr>gpu_index = i, name = name_group nv h, memory_total = mt, memory_used = mu,
     memory_utilization = mutil, utilization = fst (utilization_group nv h),
     memory_utilization_rate = snd (utilization_group nv h),
     temperature = temperature_group nv h, power_draw = fst (power_group nv h),
     power_limit = snd (power_group nv h), fan_speed = fan_group nv h,
     clock_speed = clock_group nv h, processes = process_group nv h\<rparr>"
    by (simp add: device_stat_def)
  show ?thesis
    using assms(2) m
    by (cases q)
       (simp_all add: s device_stat_def fail_query_handle group_fail del: fail_query.simps)
qed

lemma stats_loop_fail_query:
  "stats_loop nv is = Inr stats \<Longrightarrow>
   stats_loop (fail_query q h nv) is =
     Inr (map (\<lambda>s. if nvmlDeviceGetHandleByIndex nv (gpu_index s) = Some h then sentinel q s else s)
            stats)"
proof (induction "is" arbitrary: stats)
  case Nil
  then show ?case by simp
next
  case (Cons i "is")
  from Cons.prems obtain s ss where s: "device_stat nv i = Inr s"
    and ss: "stats_loop nv is = Inr ss" and st: "stats = s # ss"
    by (auto split: sum.splits)
  have g: "gpu_index s = i" using s by (rule device_stat_gpu_index)
  show ?case
  proof (cases "nvmlDeviceGetHandleByIndex nv i = Some h")
    case True
    then show ?thesis
      using Cons.IH [OF ss] device_stat_fail_query [OF s True, of q] st g by simp
  next
    case False
    then show ?thesis
      using Cons.IH [OF ss] device_stat_other_handle [OF False, of q] s st g by simp
  qed
qed

text \<open>
  Claim C8 (a failing query is isolated). Take a tick in which \<open>get_nvidia_stats\<close> returns
  the samples \<open>stats\<close>. If in that tick one query raises \<open>NVMLError\<close> for the handle of one
  device, whichever of the ten queries it is, the function still returns, and what it returns
  is \<open>stats\<close> with the fields of that query's block set to 0, \<open>Unknown\<close> or, for a process
  list, to no entry of that list, in the sample of that device: every other field of that
  sample and the samples of the other devices are the same.
\<close>

theorem failing_query_isolated:
  assumes "get_nvidia_stats nv n = Inr stats"
  shows "get_nvidia_stats (fail_query q h nv) n =
     Inr (map (\<lambda>s. if nvmlDeviceGetHandleByIndex nv (gpu_index s) = Some h then sentinel q s else s)
            stats)"
  using assms unfolding get_nvidia_stats_def by (rule stats_loop_fail_query)

theorem failing_query_isolated_witness:
  "get_nvidia_stats (example_nvml (\<lambda>h. Some 50) example_memory) 2 =
     Inr [example_stat 0 50, example_stat 1 50] \<and>
   get_nvidia_stats (fail_query Temperature_query 0 (example_nvml (\<lambda>h. Some 50) example_memory)) 2 =
     Inr [example_stat 0 0, example_stat 1 50]"
proof -
  have a: "get_nvidia_stats (example_nvml (\<lambda>h. Some 50) example_memory) 2 =
     Inr [example_stat 0 50, example_stat 1 50]"
    by (simp add: stats_example_2)
  have b: "nvmlDeviceGetHandleByIndex (example_nvml (\<lambda>h. Some 50) example_memory) = Some"
    by (simp add: example_nvml_def)
  show ?thesis
    using failing_query_isolated [OF a, of Temperature_query 0] a
    by (simp add: b example_stat_def del: fail_query.simps)
qed

end
